theory Spec2Isabelle
  imports Complex_Main
begin

section \<open>Python values\<close>

text \<open>
  The loan application is a Python dictionary whose values come from a web form or from
  a JSON body. Numbers are modelled by the exact value they denote: a Python \<open>int\<close> or a
  finite \<open>float\<close> is \<open>Fin x\<close>, and the three special floats are constructors of their
  own. Comparisons follow Python: every ordering comparison with \<open>NaN\<close> is false. The
  rounding of binary floating point arithmetic is not part of the model: a quotient is
  the exact quotient.
\<close>

datatype number = Fin real | PosInf | NegInf | NaN

datatype pyval = PNone | PBool bool | PNum number | PStr string | PList "pyval list"

datatype error = KeyError | TypeError | ValueError | ZeroDivisionError

fun num_lt :: "number \<Rightarrow> number \<Rightarrow> bool" where
  "num_lt (Fin a) (Fin b) = (a < b)"
| "num_lt (Fin a) PosInf = True"
| "num_lt NegInf (Fin b) = True"
| "num_lt NegInf PosInf = True"
| "num_lt _ _ = False"

definition num_le :: "number \<Rightarrow> number \<Rightarrow> bool" where
  "num_le x y = (num_lt x y \<or> (x = y \<and> x \<noteq> NaN))"

definition num_gt :: "number \<Rightarrow> number \<Rightarrow> bool" where
  "num_gt x y = num_lt y x"

definition num_ge :: "number \<Rightarrow> number \<Rightarrow> bool" where
  "num_ge x y = num_le y x"

text \<open>
  What Python does with a value where it needs a number (\<open>bool\<close> is a subclass of
  \<open>int\<close>), a truth value, or a dictionary entry with a default.
\<close>

fun num_of :: "pyval \<Rightarrow> number option" where
  "num_of (PNum x) = Some x"
| "num_of (PBool b) = Some (Fin (if b then 1 else 0))"
| "num_of _ = None"

fun truthy :: "pyval \<Rightarrow> bool" where
  "truthy PNone = False"
| "truthy (PBool b) = b"
| "truthy (PNum x) = (x \<noteq> Fin 0)"
| "truthy (PStr s) = (s \<noteq> [])"
| "truthy (PList vs) = (vs \<noteq> [])"

type_synonym pydict = "string \<Rightarrow> pyval option"

definition dict_get :: "pydict \<Rightarrow> string \<Rightarrow> pyval \<Rightarrow> pyval" where
  "dict_get d k dflt = (case d k of None \<Rightarrow> dflt | Some v \<Rightarrow> v)"

text \<open>
  \<open>v < y\<close> and \<open>v > y\<close> for a threshold \<open>y\<close> of the rules file: a \<open>TypeError\<close>
  when \<open>v\<close> is \<open>None\<close>, a string or a list.
\<close>

definition py_lt :: "pyval \<Rightarrow> number \<Rightarrow> error + bool" where
  "py_lt v y = (case num_of v of None \<Rightarrow> Inl TypeError | Some x \<Rightarrow> Inr (num_lt x y))"

definition py_gt :: "pyval \<Rightarrow> number \<Rightarrow> error + bool" where
  "py_gt v y = (case num_of v of None \<Rightarrow> Inl TypeError | Some x \<Rightarrow> Inr (num_gt x y))"

text \<open>
  True division \<open>x / y\<close>: Python raises \<open>ZeroDivisionError\<close> on a zero divisor,
  whatever the dividend; the infinities and \<open>NaN\<close> follow IEEE 754.
\<close>

fun num_div :: "number \<Rightarrow> number \<Rightarrow> error + number" where
  "num_div x (Fin b) =
     (if b = 0 then Inl ZeroDivisionError
      else case x of
        Fin a \<Rightarrow> Inr (Fin (a / b))
      | PosInf \<Rightarrow> Inr (if 0 < b then PosInf else NegInf)
      | NegInf \<Rightarrow> Inr (if 0 < b then NegInf else PosInf)
      | NaN \<Rightarrow> Inr NaN)"
| "num_div (Fin a) PosInf = Inr (Fin 0)"
| "num_div (Fin a) NegInf = Inr (Fin 0)"
| "num_div x y = Inr NaN"

definition py_truediv :: "pyval \<Rightarrow> pyval \<Rightarrow> error + number" where
  "py_truediv v w =
     (case (num_of v, num_of w) of
        (Some x, Some y) \<Rightarrow> num_div x y
      | _ \<Rightarrow> Inl TypeError)"

subsection \<open>Rounding and formatting\<close>

text \<open>
  \<open>round(x, 2)\<close> and the format specification \<open>,.2f\<close> both round the exact value
  to two decimals, a tie going to the even neighbour.
\<close>

definition round_half_even :: "real \<Rightarrow> int" where
  "round_half_even x =
     (let f = \<lfloor>x\<rfloor>; d = x - of_int f in
      if d < 1 / 2 then f
      else if 1 / 2 < d then f + 1
      else if even f then f else f + 1)"

fun py_round2 :: "number \<Rightarrow> number" where
  "py_round2 (Fin x) = Fin (of_int (round_half_even (x * 100)) / 100)"
| "py_round2 x = x"

definition digit_char :: "nat \<Rightarrow> char" where
  "digit_char n = ''0123456789'' ! (n mod 10)"

fun digits :: "nat \<Rightarrow> string" where
  "digits n = (if n < 10 then [digit_char n] else digits (n div 10) @ [digit_char (n mod 10)])"

declare digits.simps [simp del]

text \<open>The thousands separator, on the digits in reverse: a comma after every third.\<close>

fun group3 :: "string \<Rightarrow> string" where
  "group3 (a # b # c # d # ds) = a # b # c # CHR '','' # group3 (d # ds)"
| "group3 ds = ds"

definition thousands :: "string \<Rightarrow> string" where
  "thousands ds = rev (group3 (rev ds))"

fun format_number :: "number \<Rightarrow> string" where
  "format_number (Fin x) =
     (let cents = nat (round_half_even (\<bar>x\<bar> * 100)) in
      (if x < 0 then ''-'' else []) @ thousands (digits (cents div 100)) @ ''.'' @
      [digit_char (cents div 10), digit_char cents])"
| "format_number PosInf = ''inf''"
| "format_number NegInf = ''-inf''"
| "format_number NaN = ''nan''"

text \<open>
  \<open>format(v, ',.2f')\<close>: numbers and booleans are formatted, \<open>None\<close> and lists raise
  \<open>TypeError\<close> (\<open>unsupported format string\<close>), a string raises \<open>ValueError\<close>
  (\<open>Unknown format code 'f'\<close>).
\<close>

fun format_2f :: "pyval \<Rightarrow> error + string" where
  "format_2f (PNum x) = Inr (format_number x)"
| "format_2f (PBool b) = Inr (format_number (Fin (if b then 1 else 0)))"
| "format_2f (PStr s) = Inl ValueError"
| "format_2f PNone = Inl TypeError"
| "format_2f (PList vs) = Inl TypeError"

text \<open>
  \<open>s.replace(old, new)\<close>: every occurrence of \<open>old\<close>, from the left, without
  overlap; an empty \<open>old\<close> matches before every character and at the end.
\<close>

function py_replace :: "string \<Rightarrow> string \<Rightarrow> string \<Rightarrow> string" where
  "py_replace old new s =
     (if old = [] then new @ concat (map (\<lambda>c. c # new) s)
      else if s = [] then []
      else if take (length old) s = old then new @ py_replace old new (drop (length old) s)
      else hd s # py_replace old new (tl s))"
  by pat_completeness auto
termination
  by (relation "measure (\<lambda>(old, new, s). length s)") auto

declare py_replace.simps [simp del]

section \<open>The rules file\<close>

text \<open>
  \<open>rules.json\<close> is read once by the constructor of \<open>DecisionEngine\<close>. The engine
  reads \<open>rules['compliance']\<close>, \<open>rules['credit_score_brackets']\<close> and
  \<open>rules['loan_to_income_ratio']['max_ratio']\<close>; the file itself is a parameter of
  every function below.
\<close>

record compliance_rules =
  required_fields :: "string list"
  minimum_credit_score :: number
  maximum_loan_amount :: number

record bracket_rules =
  pre_approved_min :: number
  conditional_min :: number

record ratio_rules =
  max_ratio :: number

record rules =
  compliance :: compliance_rules
  credit_score_brackets :: bracket_rules
  loan_to_income_ratio :: ratio_rules

section \<open>The decision matrix\<close>

text \<open>
  \<open>DecisionEngine._make_decision\<close>: four tests in the order of the source, each with
  an early return, and \<open>'denied'\<close> at the end. The chained comparison
  \<open>a <= x < b\<close> is \<open>a <= x and x < b\<close>.
\<close>

definition make_decision :: "rules \<Rightarrow> number \<Rightarrow> number \<Rightarrow> bool \<Rightarrow> string" where
  "make_decision rs credit_score loan_to_income has_bankruptcy =
     (let brackets = credit_score_brackets rs in
      if num_ge credit_score (pre_approved_min brackets) \<and>
         \<not> has_bankruptcy \<and>
         num_le loan_to_income (max_ratio (loan_to_income_ratio rs))
      then ''pre_approved''
      else if num_ge credit_score (pre_approved_min brackets) \<and> has_bankruptcy
      then ''conditional''
      else if num_ge credit_score (pre_approved_min brackets) \<and>
              num_gt loan_to_income (max_ratio (loan_to_income_ratio rs))
      then ''conditional''
      else if num_le (conditional_min brackets) credit_score \<and>
              num_lt credit_score (pre_approved_min brackets) \<and>
              num_le loan_to_income (Fin (1 / 2))
      then ''conditional''
      else ''denied'')"

text \<open>
  The decision matrix as the specification words it: four numbered rules, each a
  condition and a verdict, read from the top, the first rule whose condition holds
  giving the verdict, and \<open>denied\<close> when none holds.
\<close>

definition rule1 :: "rules \<Rightarrow> number \<Rightarrow> number \<Rightarrow> bool \<Rightarrow> bool" where
  "rule1 rs credit_score ratio has_bankruptcy =
     (num_ge credit_score (pre_approved_min (credit_score_brackets rs)) \<and>
      \<not> has_bankruptcy \<and>
      num_le ratio (max_ratio (loan_to_income_ratio rs)))"

definition rule2 :: "rules \<Rightarrow> number \<Rightarrow> number \<Rightarrow> bool \<Rightarrow> bool" where
  "rule2 rs credit_score ratio has_bankruptcy =
     (num_ge credit_score (pre_approved_min (credit_score_brackets rs)) \<and> has_bankruptcy)"

definition rule3 :: "rules \<Rightarrow> number \<Rightarrow> number \<Rightarrow> bool \<Rightarrow> bool" where
  "rule3 rs credit_score ratio has_bankruptcy =
     (num_ge credit_score (pre_approved_min (credit_score_brackets rs)) \<and>
      num_gt ratio (max_ratio (loan_to_income_ratio rs)))"

definition rule4 :: "rules \<Rightarrow> number \<Rightarrow> number \<Rightarrow> bool \<Rightarrow> bool" where
  "rule4 rs credit_score ratio has_bankruptcy =
     (num_le (conditional_min (credit_score_brackets rs)) credit_score \<and>
      num_lt credit_score (pre_approved_min (credit_score_brackets rs)) \<and>
      num_le ratio (Fin (1 / 2)))"

fun first_match :: "(bool \<times> string) list \<Rightarrow> string \<Rightarrow> string" where
  "first_match [] otherwise = otherwise"
| "first_match ((condition, verdict) # rows) otherwise =
     (if condition then verdict else first_match rows otherwise)"

definition decision_matrix_spec :: "rules \<Rightarrow> number \<Rightarrow> number \<Rightarrow> bool \<Rightarrow> string" where
  "decision_matrix_spec rs credit_score ratio has_bankruptcy =
     first_match
       [(rule1 rs credit_score ratio has_bankruptcy, ''pre_approved''),
        (rule2 rs credit_score ratio has_bankruptcy, ''conditional''),
        (rule3 rs credit_score ratio has_bankruptcy, ''conditional''),
        (rule4 rs credit_score ratio has_bankruptcy, ''conditional'')]
       ''denied''"

text \<open>The same matrix with the second and the third rule exchanged.\<close>

definition decision_matrix_swapped :: "rules \<Rightarrow> number \<Rightarrow> number \<Rightarrow> bool \<Rightarrow> string" where
  "decision_matrix_swapped rs credit_score ratio has_bankruptcy =
     first_match
       [(rule1 rs credit_score ratio has_bankruptcy, ''pre_approved''),
        (rule3 rs credit_score ratio has_bankruptcy, ''conditional''),
        (rule2 rs credit_score ratio has_bankruptcy, ''conditional''),
        (rule4 rs credit_score ratio has_bankruptcy, ''conditional'')]
       ''denied''"

section \<open>The messages file\<close>

text \<open>
  \<open>messages.json\<close>, the second parameter of the engine: \<open>messages['decisions']\<close>
  maps a decision to its template, \<open>messages['contact_preference']\<close> maps \<open>'yes'\<close>
  and \<open>'no'\<close> to a confirmation. The engine passes \<open>title\<close> and \<open>next_steps\<close>
  on as they are and calls \<open>replace\<close> on \<open>message\<close>.
\<close>

record template =
  title :: pyval
  message :: string
  next_steps :: pyval

record contact_template =
  contact_title :: pyval
  contact_message :: string

record messages =
  decisions :: "string \<Rightarrow> template option"
  contact_preference :: "string \<Rightarrow> contact_template option"

section \<open>The decision engine\<close>

text \<open>
  \<open>DecisionEngine._check_compliance\<close>. The loop over the required fields returns at
  the first field that is absent or \<open>None\<close>; \<open>missing_field\<close> is that loop. The two
  threshold tests read their field with a default of 0.
\<close>

record compliance_check =
  valid :: bool
  reason :: "string option"

fun missing_field :: "pydict \<Rightarrow> string list \<Rightarrow> string option" where
  "missing_field application [] = None"
| "missing_field application (field # rest) =
     (if application field = None \<or> application field = Some PNone then Some field
      else missing_field application rest)"

definition check_compliance :: "rules \<Rightarrow> pydict \<Rightarrow> error + compliance_check" where
  "check_compliance rs application =
     (case missing_field application (required_fields (compliance rs)) of
        Some field \<Rightarrow>
          Inr \<lparr>valid = False, reason = Some (''Missing required field: '' @ field)\<rparr>
      | None \<Rightarrow>
          (case py_lt (dict_get application ''credit_score'' (PNum (Fin 0)))
                  (minimum_credit_score (compliance rs)) of
             Inl e \<Rightarrow> Inl e
           | Inr True \<Rightarrow> Inr \<lparr>valid = False, reason = Some ''Credit score below minimum''\<rparr>
           | Inr False \<Rightarrow>
               (case py_gt (dict_get application ''loan_amount'' (PNum (Fin 0)))
                       (maximum_loan_amount (compliance rs)) of
                  Inl e \<Rightarrow> Inl e
                | Inr True \<Rightarrow>
                    Inr \<lparr>valid = False, reason = Some ''Loan amount exceeds maximum''\<rparr>
                | Inr False \<Rightarrow> Inr \<lparr>valid = True, reason = None\<rparr>)))"

text \<open>
  \<open>DecisionEngine._format_message\<close>. The default of \<open>dict.get\<close> is an argument, so
  \<open>messages['decisions']['denied']\<close> is looked up (and may raise \<open>KeyError\<close>) before
  the template of the decision is; the formatted amount is an argument of \<open>replace\<close>,
  so it is computed whether or not the template holds the placeholder.
\<close>

definition format_message :: "messages \<Rightarrow> string \<Rightarrow> pydict \<Rightarrow> error + pydict" where
  "format_message ms decision application =
     (case decisions ms ''denied'' of
        None \<Rightarrow> Inl KeyError
      | Some denied_template \<Rightarrow>
          (let message_template =
                 (case decisions ms decision of
                    None \<Rightarrow> denied_template
                  | Some t \<Rightarrow> t)
           in case format_2f (dict_get application ''loan_amount'' (PNum (Fin 0))) of
                Inl e \<Rightarrow> Inl e
              | Inr amount \<Rightarrow>
                  Inr [''decision'' \<mapsto> PStr decision,
                       ''title'' \<mapsto> title message_template,
                       ''message'' \<mapsto>
                          PStr (py_replace ''${loan_amount}'' (''$'' @ amount)
                                 (message message_template)),
                       ''next_steps'' \<mapsto> next_steps message_template]))"

text \<open>
  \<open>loan_amount / annual_income if annual_income > 0 else float('inf')\<close>: the test is
  evaluated first, the division only when it holds.
\<close>

definition loan_to_income_of :: "pyval \<Rightarrow> pyval \<Rightarrow> error + number" where
  "loan_to_income_of loan_amount annual_income =
     (case py_gt annual_income (Fin 0) of
        Inl e \<Rightarrow> Inl e
      | Inr True \<Rightarrow> py_truediv loan_amount annual_income
      | Inr False \<Rightarrow> Inr PosInf)"

text \<open>
  \<open>DecisionEngine.evaluate_application\<close>. The four subscriptions
  \<open>application[...]\<close> raise \<open>KeyError\<close> on an absent key; \<open>_make_decision\<close>
  compares the credit score with a number (\<open>TypeError\<close> unless it is one) and uses
  \<open>has_bankruptcy\<close> for its truth value only.
\<close>

definition evaluate_application ::
  "rules \<Rightarrow> messages \<Rightarrow> pydict \<Rightarrow> error + (string \<times> pydict)" where
  "evaluate_application rs ms application =
     (case check_compliance rs application of
        Inl e \<Rightarrow> Inl e
      | Inr compliance_check \<Rightarrow>
          if \<not> valid compliance_check then
            (case format_message ms ''denied_compliance'' application of
               Inl e \<Rightarrow> Inl e
             | Inr message_data \<Rightarrow> Inr (''denied_compliance'', message_data))
          else
            (case (application ''credit_score'', application ''loan_amount'',
                   application ''annual_income'', application ''has_bankruptcy'') of
               (Some credit_score, Some loan_amount, Some annual_income, Some has_bankruptcy) \<Rightarrow>
                 (case loan_to_income_of loan_amount annual_income of
                    Inl e \<Rightarrow> Inl e
                  | Inr loan_to_income \<Rightarrow>
                      (case num_of credit_score of
                         None \<Rightarrow> Inl TypeError
                       | Some score \<Rightarrow>
                           (let decision =
                                  make_decision rs score loan_to_income (truthy has_bankruptcy)
                            in case format_message ms decision application of
                                 Inl e \<Rightarrow> Inl e
                               | Inr message_data \<Rightarrow>
                                   Inr (decision,
                                        message_data(''loan_to_income_ratio'' \<mapsto>
                                          PNum (py_round2 loan_to_income))))))
             | _ \<Rightarrow> Inl KeyError))"

text \<open>
  \<open>str.lower\<close>, on the letters of ASCII (a \<open>char\<close> is a byte; e-mail addresses
  that pass \<open>validate_email\<close> are ASCII).
\<close>

definition lower_char :: "char \<Rightarrow> char" where
  "lower_char c =
     (case map_of (zip ''ABCDEFGHIJKLMNOPQRSTUVWXYZ'' ''abcdefghijklmnopqrstuvwxyz'') c of
        None \<Rightarrow> c
      | Some l \<Rightarrow> l)"

definition lower :: "string \<Rightarrow> string" where
  "lower s = map lower_char s"

text \<open>
  \<open>DecisionEngine.get_contact_message\<close>: the preference is lowercased before it is
  compared with \<open>'yes'\<close>.
\<close>

definition get_contact_message :: "messages \<Rightarrow> string \<Rightarrow> string \<Rightarrow> error + pydict" where
  "get_contact_message ms preference email =
     (let pref_key = (if lower preference = ''yes'' then ''yes'' else ''no'') in
      case contact_preference ms pref_key of
        None \<Rightarrow> Inl KeyError
      | Some message_template \<Rightarrow>
          Inr [''title'' \<mapsto> contact_title message_template,
               ''message'' \<mapsto>
                  PStr (py_replace ''{email}'' email (contact_message message_template))])"

section \<open>The submission ledger\<close>

text \<open>
  \<open>submissions.json\<close> holds the list of submission records, in the order they were
  appended. A record is the dictionary \<open>save_submission\<close> writes: the application with
  its \<open>email\<close> and its \<open>timestamp\<close>, the decision, and the contact preference once
  the applicant has given it. A timestamp is the instant it denotes, in microseconds
  (the resolution of \<open>datetime\<close>), so \<open>isoformat\<close> and \<open>fromisoformat\<close> are the
  identity; the clock \<open>datetime.now()\<close> is an argument of every operation. The file
  may be absent: \<open>None\<close>.
\<close>

record submission =
  s_email :: string
  s_timestamp :: int
  s_application :: pydict
  s_decision :: string
  s_contact_requested :: "bool option"
  s_contact_timestamp :: "int option"

type_synonym submissions_file = "submission list option"

definition RESUBMISSION_DAYS :: int where
  "RESUBMISSION_DAYS = 7"

text \<open>
  \<open>(datetime.now() - submission_date).days\<close>: \<open>timedelta\<close> keeps its seconds and
  microseconds non-negative, so \<open>days\<close> is the floor of the difference in days.
\<close>

definition days_since :: "int \<Rightarrow> int \<Rightarrow> int" where
  "days_since now submission_date = (now - submission_date) div 86400000000"

text \<open>
  \<open>check_existing_submission\<close>: the loop over \<open>reversed(submissions)\<close> returns at the
  first record whose e-mail matches; a missing file is caught and answers as an empty
  one.
\<close>

fun scan_reversed ::
  "int \<Rightarrow> string \<Rightarrow> submission list \<Rightarrow> bool \<times> int \<times> submission option" where
  "scan_reversed now email [] = (False, 0, None)"
| "scan_reversed now email (submission # rest) =
     (if lower (s_email submission) = lower email then
        (if days_since now (s_timestamp submission) < RESUBMISSION_DAYS
         then (True, RESUBMISSION_DAYS - days_since now (s_timestamp submission),
               Some submission)
         else (False, 0, Some submission))
      else scan_reversed now email rest)"

definition check_existing_submission ::
  "int \<Rightarrow> submissions_file \<Rightarrow> string \<Rightarrow> bool \<times> int \<times> submission option" where
  "check_existing_submission now file email =
     (case file of
        None \<Rightarrow> (False, 0, None)
      | Some submissions \<Rightarrow> scan_reversed now email (rev submissions))"

text \<open>
  \<open>save_submission\<close>: the loop over \<open>enumerate(submissions)\<close> stops at the first
  index \<open>i\<close> whose record has the e-mail of \<open>data\<close> and is at least
  \<open>RESUBMISSION_DAYS\<close> old, and \<open>submissions[i] = data\<close>; with no such index the
  record is appended. \<open>find_update\<close> is the loop from index \<open>i\<close> on.
\<close>

fun find_update :: "int \<Rightarrow> string \<Rightarrow> submission list \<Rightarrow> nat \<Rightarrow> nat option" where
  "find_update now email [] i = None"
| "find_update now email (sub # subs) i =
     (if lower (s_email sub) = email \<and>
         RESUBMISSION_DAYS \<le> days_since now (s_timestamp sub)
      then Some i
      else find_update now email subs (Suc i))"

definition save_submission :: "int \<Rightarrow> submissions_file \<Rightarrow> submission \<Rightarrow> submissions_file" where
  "save_submission now file data =
     (let submissions = (case file of None \<Rightarrow> [] | Some subs \<Rightarrow> subs);
          email = lower (s_email data)
      in case find_update now email submissions 0 of
           Some i \<Rightarrow> Some (submissions[i := data])
         | None \<Rightarrow> Some (submissions @ [data]))"

text \<open>
  The gate of \<open>submit_application\<close> (and of \<open>api_evaluate\<close>): the check on the
  e-mail of the form, a return without saving when it reports a recent submission, and
  otherwise the save of the record built from the form. The clock is read at the check
  and again at the save.
\<close>

record request =
  checked_at :: int
  saved_at :: int
  submission_record :: submission

definition submit_application :: "request \<Rightarrow> submissions_file \<Rightarrow> submissions_file" where
  "submit_application req file =
     (case check_existing_submission (checked_at req) file
             (s_email (submission_record req)) of
        (exists, days_remaining, old_sub) \<Rightarrow>
          if exists then file
          else save_submission (saved_at req) file (submission_record req))"

fun submit_all :: "request list \<Rightarrow> submissions_file \<Rightarrow> submissions_file" where
  "submit_all [] file = file"
| "submit_all (req # reqs) file = submit_all reqs (submit_application req file)"

definition records_of :: "submissions_file \<Rightarrow> submission list" where
  "records_of file = (case file of None \<Rightarrow> [] | Some submissions \<Rightarrow> submissions)"

text \<open>
  The records of one normalised e-mail that are inside the cooldown window at the
  instant \<open>now\<close>.
\<close>

definition active_records :: "int \<Rightarrow> string \<Rightarrow> submission list \<Rightarrow> submission list" where
  "active_records now email submissions =
     filter (\<lambda>s. lower (s_email s) = lower email \<and>
                 days_since now (s_timestamp s) < RESUBMISSION_DAYS) submissions"

text \<open>
  The record the upsert of the specification looks for: the normalised e-mail of
  \<open>data\<close>, and an elapsed time of at least seven days.
\<close>

definition stale :: "int \<Rightarrow> submission \<Rightarrow> submission \<Rightarrow> bool" where
  "stale now data s =
     (lower (s_email s) = lower (s_email data) \<and> 7 \<le> days_since now (s_timestamp s))"

text \<open>The ledger holds at most one record for a normalised e-mail.\<close>

definition one_record_per_email :: "submissions_file \<Rightarrow> bool" where
  "one_record_per_email file = distinct (map (\<lambda>s. lower (s_email s)) (records_of file))"

text \<open>
  The route \<open>/contact\<close>: the loop over \<open>reversed(submissions)\<close> updates the first
  record whose e-mail matches and breaks; the file is written back, and the
  confirmation is \<open>get_contact_message\<close> of the same preference. A missing file
  raises inside the \<open>try\<close> and is passed over.
\<close>

fun update_reversed :: "int \<Rightarrow> string \<Rightarrow> string \<Rightarrow> submission list \<Rightarrow> submission list" where
  "update_reversed now preference email [] = []"
| "update_reversed now preference email (submission # rest) =
     (if lower (s_email submission) = lower email then
        submission\<lparr>s_contact_requested := Some (preference = ''yes''),
                   s_contact_timestamp := Some now\<rparr> # rest
      else submission # update_reversed now preference email rest)"

definition contact_preference_route ::
  "messages \<Rightarrow> int \<Rightarrow> string \<Rightarrow> string \<Rightarrow> submissions_file \<Rightarrow>
   submissions_file \<times> (error + pydict)" where
  "contact_preference_route ms now preference email file =
     ((case file of
         None \<Rightarrow> None
       | Some submissions \<Rightarrow>
           Some (rev (update_reversed now preference email (rev submissions)))),
      get_contact_message ms preference email)"

section \<open>The formatted amount and the rounded ratio\<close>








section \<open>Examples\<close>

text \<open>
  A rules file for the examples: the thresholds of the specification's worked examples
  (\<open>max_ratio = 0.4\<close>, \<open>conditional_min = 620\<close>, a score of 780 pre-approved, a
  score of 250 below the minimum), the six fields of the form as required fields. The
  examples leave \<open>pre_approved_min\<close> and \<open>maximum_loan_amount\<close> open; they are 720
  and 1000000 here.
\<close>

definition example_rules :: rules where
  "example_rules =
     \<lparr>compliance =
        \<lparr>required_fields =
           [''name'', ''email'', ''loan_amount'', ''credit_score'', ''annual_income'',
            ''has_bankruptcy''],
         minimum_credit_score = Fin 300,
         maximum_loan_amount = Fin 1000000\<rparr>,
      credit_score_brackets = \<lparr>pre_approved_min = Fin 720, conditional_min = Fin 620\<rparr>,
      loan_to_income_ratio = \<lparr>max_ratio = Fin (4 / 10)\<rparr>\<rparr>"

text \<open>A messages file with the four decisions and the two contact confirmations.\<close>

definition example_messages :: messages where
  "example_messages =
     \<lparr>decisions =
        [''pre_approved'' \<mapsto>
           \<lparr>title = PStr ''Pre-approved'',
            message = ''Your loan of ${loan_amount} is pre-approved.'',
            next_steps = PList [PStr ''Sign the offer'']\<rparr>,
         ''conditional'' \<mapsto>
           \<lparr>title = PStr ''Conditional'',
            message = ''Your loan of ${loan_amount} needs a review.'',
            next_steps = PList [PStr ''Wait for an agent'']\<rparr>,
         ''denied'' \<mapsto>
           \<lparr>title = PStr ''Denied'',
            message = ''We cannot offer ${loan_amount}.'',
            next_steps = PList []\<rparr>,
         ''denied_compliance'' \<mapsto>
           \<lparr>title = PStr ''Not eligible'',
            message = ''The request for ${loan_amount} does not meet the requirements.'',
            next_steps = PList []\<rparr>],
      contact_preference =
        [''yes'' \<mapsto>
           \<lparr>contact_title = PStr ''Thank you'',
            contact_message = ''An agent will write to {email}.''\<rparr>,
         ''no'' \<mapsto>
           \<lparr>contact_title = PStr ''Understood'',
            contact_message = ''We will not contact {email}.''\<rparr>]\<rparr>"

text \<open>
  The application of the specification's first example, as \<open>/api/evaluate\<close> hands it
  to the engine, and the same application with \<open>"loan_amount": null\<close> in the JSON
  body.
\<close>

definition example_application :: pydict where
  "example_application =
     [''name'' \<mapsto> PStr ''Ada'',
      ''email'' \<mapsto> PStr ''ada@example.org'',
      ''loan_amount'' \<mapsto> PNum (Fin 10000),
      ''credit_score'' \<mapsto> PNum (Fin 780),
      ''annual_income'' \<mapsto> PNum (Fin 50000),
      ''has_bankruptcy'' \<mapsto> PBool False,
      ''timestamp'' \<mapsto> PStr ''2024-03-01T09:30:00'']"

definition null_loan_application :: pydict where
  "null_loan_application = example_application(''loan_amount'' \<mapsto> PNone)"

text \<open>
  The example application with an annual income of zero, and with a credit score of
  250, below the minimum.
\<close>

definition zero_income_application :: pydict where
  "zero_income_application = example_application(''annual_income'' \<mapsto> PNum (Fin 0))"

definition low_score_application :: pydict where
  "low_score_application = example_application(''credit_score'' \<mapsto> PNum (Fin 250))"

text \<open>A record of the ledger for an e-mail, written at an instant.\<close>

definition example_record :: "string \<Rightarrow> int \<Rightarrow> submission" where
  "example_record email written =
     \<lparr>s_email = email, s_timestamp = written, s_application = example_application,
      s_decision = ''pre_approved'', s_contact_requested = None,
      s_contact_timestamp = None\<rparr>"

definition day :: int where
  "day = 86400000000"

definition hour :: int where
  "hour = 3600000000"

text \<open>
  Four requests: a first submission, a second one two days later under the same
  address, a third one after eight days, and another applicant.
\<close>

definition example_requests :: "request list" where
  "example_requests =
     [\<lparr>checked_at = 0, saved_at = 1,
       submission_record = example_record ''ada@example.org'' 0\<rparr>,
      \<lparr>checked_at = 2 * day, saved_at = 2 * day + 1,
       submission_record = example_record ''Ada@Example.org'' (2 * day)\<rparr>,
      \<lparr>checked_at = 8 * day, saved_at = 8 * day + 1,
       submission_record = example_record ''ADA@example.org'' (8 * day)\<rparr>,
      \<lparr>checked_at = 9 * day, saved_at = 9 * day + 1,
       submission_record = example_record ''bob@example.org'' (9 * day)\<rparr>]"

section \<open>Properties of the decision matrix\<close>

lemma num_lt_irrefl: "\<not> num_lt x x"
  by (cases x) simp_all

lemma num_lt_asym: "num_lt x y \<Longrightarrow> \<not> num_lt y x"
  by (cases x; cases y) simp_all

lemma num_gt_not_le: "num_gt x y \<Longrightarrow> \<not> num_le x y"
  using num_lt_asym [of y x] num_lt_irrefl [of x] by (auto simp: num_gt_def num_le_def)

lemma num_lt_not_ge: "num_lt x y \<Longrightarrow> \<not> num_ge x y"
  using num_lt_asym [of x y] num_lt_irrefl [of x] by (auto simp: num_ge_def num_le_def)

lemma make_decision_rules:
  "make_decision rs c r b =
     (if rule1 rs c r b then ''pre_approved''
      else if rule2 rs c r b then ''conditional''
      else if rule3 rs c r b then ''conditional''
      else if rule4 rs c r b then ''conditional''
      else ''denied'')"
  by (simp add: make_decision_def rule1_def rule2_def rule3_def rule4_def Let_def)

lemma rule1_excludes: "rule1 rs c r b \<Longrightarrow> \<not> rule2 rs c r b \<and> \<not> rule3 rs c r b \<and> \<not> rule4 rs c r b"
  using num_gt_not_le [of r "max_ratio (loan_to_income_ratio rs)"]
    num_lt_not_ge [of c "pre_approved_min (credit_score_brackets rs)"]
  by (auto simp: rule1_def rule2_def rule3_def rule4_def)

text \<open>
  C1. The verdict of \<open>_make_decision\<close> is the verdict of the specification's matrix
  read from the top with the first match winning; it is \<open>pre_approved\<close> exactly when
  rule 1 holds, \<open>conditional\<close> exactly when one of the rules 2, 3 and 4 holds, and
  \<open>denied\<close> exactly when no rule holds; so it is always one of these three values.
\<close>

theorem make_decision_matrix:
  "make_decision rs c r b = decision_matrix_spec rs c r b \<and>
   make_decision rs c r b \<in> {''pre_approved'', ''conditional'', ''denied''} \<and>
   (make_decision rs c r b = ''pre_approved'' \<longleftrightarrow> rule1 rs c r b) \<and>
   (make_decision rs c r b = ''conditional'' \<longleftrightarrow>
      rule2 rs c r b \<or> rule3 rs c r b \<or> rule4 rs c r b) \<and>
   (make_decision rs c r b = ''denied'' \<longleftrightarrow>
      \<not> rule1 rs c r b \<and> \<not> rule2 rs c r b \<and> \<not> rule3 rs c r b \<and> \<not> rule4 rs c r b)"
proof -
  have spec: "make_decision rs c r b = decision_matrix_spec rs c r b"
    by (simp add: make_decision_rules decision_matrix_spec_def)
  have range: "make_decision rs c r b \<in> {''pre_approved'', ''conditional'', ''denied''}"
    by (simp add: make_decision_rules)
  have pre: "make_decision rs c r b = ''pre_approved'' \<longleftrightarrow> rule1 rs c r b"
    by (simp add: make_decision_rules)
  have cond: "make_decision rs c r b = ''conditional'' \<longleftrightarrow>
      rule2 rs c r b \<or> rule3 rs c r b \<or> rule4 rs c r b"
    using rule1_excludes [of rs c r b] by (auto simp: make_decision_rules)
  have den: "make_decision rs c r b = ''denied'' \<longleftrightarrow>
      \<not> rule1 rs c r b \<and> \<not> rule2 rs c r b \<and> \<not> rule3 rs c r b \<and> \<not> rule4 rs c r b"
    by (simp add: make_decision_rules)
  from spec range pre cond den show ?thesis by blast
qed

text \<open>
  The specification's three worked examples of the matrix, on \<open>example_rules\<close>:
  780 with ratio 0.2 is pre-approved, 780 with ratio 0.8 is conditional, 600 with ratio
  0.2 is denied.
\<close>

theorem make_decision_matrix_witness:
  "make_decision example_rules (Fin 780) (Fin (10000 / 50000)) False = ''pre_approved'' \<and>
   make_decision example_rules (Fin 780) (Fin (40000 / 50000)) False = ''conditional'' \<and>
   make_decision example_rules (Fin 600) (Fin (10000 / 50000)) False = ''denied'' \<and>
   decision_matrix_spec example_rules (Fin 780) (Fin (40000 / 50000)) False = ''conditional''"
  using make_decision_matrix [of example_rules "Fin 780" "Fin (40000 / 50000)" False]
  by (simp add: make_decision_def example_rules_def num_le_def num_ge_def num_gt_def)

text \<open>
  C6, as stated, fails: with a score of 780, a bankruptcy and a ratio of 0.8, rule 1
  does not hold and the conditions of rule 2 and of rule 3 both hold.
\<close>

theorem rules_2_3_overlap_counterexample:
  "\<not> rule1 example_rules (Fin 780) (Fin (8 / 10)) True \<and>
   rule2 example_rules (Fin 780) (Fin (8 / 10)) True \<and>
   rule3 example_rules (Fin 780) (Fin (8 / 10)) True"
  by (simp add: rule1_def rule2_def rule3_def example_rules_def num_le_def num_ge_def
      num_gt_def)

text \<open>
  C6, amended. Rules 2 and 3 may hold together once rule 1 has failed, but both give
  \<open>conditional\<close>: the matrix with rules 2 and 3 exchanged returns, on every input,
  the verdict of \<open>_make_decision\<close>.
\<close>

theorem rules_2_3_order_irrelevant:
  "decision_matrix_swapped rs c r b = make_decision rs c r b"
  by (simp add: decision_matrix_swapped_def make_decision_rules)

theorem rules_2_3_order_irrelevant_witness:
  "decision_matrix_swapped example_rules (Fin 780) (Fin (8 / 10)) True = ''conditional'' \<and>
   make_decision example_rules (Fin 780) (Fin (8 / 10)) True = ''conditional''"
  using rules_2_3_order_irrelevant [of example_rules "Fin 780" "Fin (8 / 10)" True]
  by (simp add: make_decision_def example_rules_def num_le_def num_ge_def num_gt_def)

section \<open>Properties of the decision engine\<close>

text \<open>The definitions a concrete evaluation unfolds.\<close>

lemmas example_defs =
  example_rules_def example_messages_def example_application_def
  null_loan_application_def zero_income_application_def low_score_application_def

lemmas engine_defs =
  evaluate_application_def check_compliance_def format_message_def loan_to_income_of_def
  py_lt_def py_gt_def py_truediv_def dict_get_def make_decision_def
  num_le_def num_ge_def num_gt_def Let_def

lemma make_decision_not_compliance: "make_decision rs c r b \<noteq> ''denied_compliance''"
  by (simp add: make_decision_rules)

lemma format_2f_num: "num_of v = Some x \<Longrightarrow> format_2f v = Inr (format_number x)"
  by (cases v) auto

lemma format_message_dom:
  "format_message ms d app = Inr md \<Longrightarrow>
   dom md = {''decision'', ''title'', ''message'', ''next_steps''}"
  by (auto simp: format_message_def Let_def split: option.splits sum.splits if_splits)

lemma format_message_loan_amount_only:
  "app ''loan_amount'' = app' ''loan_amount'' \<Longrightarrow>
   format_message ms d app = format_message ms d app'"
proof -
  assume "app ''loan_amount'' = app' ''loan_amount''"
  then have "dict_get app ''loan_amount'' (PNum (Fin 0)) =
      dict_get app' ''loan_amount'' (PNum (Fin 0))"
    by (simp add: dict_get_def)
  then show ?thesis
    by (simp add: format_message_def split: option.splits)
qed


text \<open>
  A failed gate short-circuits: the result is the formatted \<open>denied_compliance\<close>
  message, whatever the other fields hold; neither the ratio nor the matrix is part of
  it, and the message reads the application through its loan amount only.
\<close>

lemma check_compliance_invalid:
  assumes "check_compliance rs app = Inr cc" and "\<not> valid cc"
  shows "evaluate_application rs ms app =
     (case format_message ms ''denied_compliance'' app of
        Inl e \<Rightarrow> Inl e | Inr md \<Rightarrow> Inr (''denied_compliance'', md))"
  using assms by (simp add: evaluate_application_def)

lemma evaluate_denied_compliance:
  "evaluate_application rs ms app = Inr (''denied_compliance'', md) \<longleftrightarrow>
   (\<exists>cc. check_compliance rs app = Inr cc \<and> \<not> valid cc) \<and>
   format_message ms ''denied_compliance'' app = Inr md"
  by (auto simp: evaluate_application_def Let_def make_decision_not_compliance
      split: sum.splits option.splits if_splits)

lemma missing_field_None:
  "missing_field app fs = None \<longleftrightarrow>
   \<not> (\<exists>f \<in> set fs. app f = None \<or> app f = Some PNone)"
  by (induction fs) auto

text \<open>
  With a loan amount and a credit score that are absent or numbers, and the \<open>denied\<close>
  template in the messages file, the engine answers \<open>denied_compliance\<close> exactly
  when the gate fails.
\<close>

lemma denied_compliance_iff:
  assumes "decisions ms ''denied'' = Some dt"
    and "num_of (dict_get app ''loan_amount'' (PNum (Fin 0))) = Some amount"
    and "num_of (dict_get app ''credit_score'' (PNum (Fin 0))) = Some score"
  shows "(\<exists>md. evaluate_application rs ms app = Inr (''denied_compliance'', md)) \<longleftrightarrow>
     (\<exists>f \<in> set (required_fields (compliance rs)). app f = None \<or> app f = Some PNone) \<or>
     num_lt score (minimum_credit_score (compliance rs)) \<or>
     num_gt amount (maximum_loan_amount (compliance rs))"
proof -
  have fm: "\<exists>md. format_message ms ''denied_compliance'' app = Inr md"
    using assms(1) format_2f_num [OF assms(2)] by (simp add: format_message_def Let_def)
  have "(\<exists>cc. check_compliance rs app = Inr cc \<and> \<not> valid cc) \<longleftrightarrow>
     (\<exists>f \<in> set (required_fields (compliance rs)). app f = None \<or> app f = Some PNone) \<or>
     num_lt score (minimum_credit_score (compliance rs)) \<or>
     num_gt amount (maximum_loan_amount (compliance rs))"
    using assms(2,3) missing_field_None [of app "required_fields (compliance rs)"]
    by (cases "missing_field app (required_fields (compliance rs))")
       (auto simp: check_compliance_def py_lt_def py_gt_def split: bool.splits)
  with fm show ?thesis
    by (auto simp: evaluate_denied_compliance)
qed

text \<open>
  A loan amount of \<open>None\<close> makes the engine raise under every rules file and every
  messages file.
\<close>

lemma null_loan_amount_always_raises:
  assumes "app ''loan_amount'' = Some PNone"
  shows "\<exists>e. evaluate_application rs ms app = Inl e"
proof -
  have get: "dict_get app ''loan_amount'' (PNum (Fin 0)) = PNone"
    using assms by (simp add: dict_get_def)
  have fm: "\<exists>e. format_message ms d app = Inl e" for d
    using get by (simp add: format_message_def Let_def split: option.splits)
  show ?thesis
  proof (cases "check_compliance rs app")
    case (Inl e)
    then show ?thesis by (simp add: evaluate_application_def)
  next
    case (Inr cc)
    have "\<not> valid cc"
      using Inr get
      by (auto simp: check_compliance_def py_gt_def split: option.splits sum.splits bool.splits)
    with Inr fm [of "''denied_compliance''"] show ?thesis
      by (auto simp: evaluate_application_def)
  qed
qed

text \<open>
  C2. The JSON body of the example with \<open>"loan_amount": null\<close>: the compliance gate
  finds the required field missing, and the formatting of the \<open>denied_compliance\<close>
  message then raises \<open>TypeError\<close> on \<open>None\<close>; no decision is returned.
\<close>

theorem null_loan_amount_raises:
  "evaluate_application example_rules example_messages null_loan_application = Inl TypeError \<and>
   missing_field null_loan_application (required_fields (compliance example_rules)) =
     Some ''loan_amount''"
  by (simp add: engine_defs example_defs)

lemma num_div_no_zero_division: "num_lt (Fin 0) y \<Longrightarrow> num_div x y \<noteq> Inl ZeroDivisionError"
  by (cases y; cases x) auto

lemma loan_to_income_no_zero_division:
  "loan_to_income_of la ai \<noteq> Inl ZeroDivisionError"
  by (auto simp: loan_to_income_of_def py_gt_def py_truediv_def num_gt_def
      dest: num_div_no_zero_division split: option.splits sum.splits bool.splits)


text \<open>
  A decision other than \<open>denied_compliance\<close> is the matrix's verdict on the credit
  score, the ratio and the truth value of \<open>has_bankruptcy\<close> of the application.
\<close>

lemma evaluate_decision_is_matrix:
  assumes "evaluate_application rs ms app = Inr (decision, md)"
    and "decision \<noteq> ''denied_compliance''"
  shows "\<exists>cs la income hb score ratio.
     app ''credit_score'' = Some cs \<and> num_of cs = Some score \<and>
     app ''loan_amount'' = Some la \<and> app ''annual_income'' = Some income \<and>
     app ''has_bankruptcy'' = Some hb \<and> loan_to_income_of la income = Inr ratio \<and>
     decision = decision_matrix_spec rs score ratio (truthy hb)"
proof -
  have "make_decision rs c r b = decision_matrix_spec rs c r b" for c r b
    by (simp add: make_decision_rules decision_matrix_spec_def)
  with assms show ?thesis
    by (auto simp: evaluate_application_def Let_def
        split: sum.splits option.splits if_splits)
qed

text \<open>
  The division is guarded: no application makes the engine raise
  \<open>ZeroDivisionError\<close>.
\<close>

lemma evaluate_never_divides_by_zero:
  "evaluate_application rs ms app \<noteq> Inl ZeroDivisionError"
proof -
  have fm: "format_message ms d app \<noteq> Inl ZeroDivisionError" for d
    by (cases "dict_get app ''loan_amount'' (PNum (Fin 0))")
       (auto simp: format_message_def Let_def split: option.splits sum.splits)
  have cc: "check_compliance rs app \<noteq> Inl ZeroDivisionError"
    by (auto simp: check_compliance_def py_lt_def py_gt_def
        split: option.splits sum.splits bool.splits)
  show ?thesis
    using fm cc loan_to_income_no_zero_division
    by (auto simp: evaluate_application_def Let_def
        split: sum.splits option.splits if_splits)
qed



text \<open>
  C10. Whenever \<open>evaluate_application\<close> returns, the message data has the key
  \<open>loan_to_income_ratio\<close> exactly when the decision is not \<open>denied_compliance\<close>,
  and on a compliance failure its keys are \<open>decision\<close>, \<open>title\<close>, \<open>message\<close>
  and \<open>next_steps\<close> only.
\<close>

theorem ratio_key_iff_not_denied_compliance:
  assumes "evaluate_application rs ms app = Inr (decision, md)"
  shows "(''loan_to_income_ratio'' \<in> dom md \<longleftrightarrow> decision \<noteq> ''denied_compliance'') \<and>
    (decision = ''denied_compliance'' \<longrightarrow>
       dom md = {''decision'', ''title'', ''message'', ''next_steps''})"
proof (cases "decision = ''denied_compliance''")
  case True
  with assms have "format_message ms ''denied_compliance'' app = Inr md"
    by (simp add: evaluate_denied_compliance)
  from format_message_dom [OF this] True show ?thesis by simp
next
  case False
  with assms have "''loan_to_income_ratio'' \<in> dom md"
    by (auto simp: evaluate_application_def Let_def
        split: sum.splits option.splits if_splits)
  with False show ?thesis by simp
qed

text \<open>
  The example application is pre-approved and carries the ratio; with a score of 250 it
  fails the gate and carries the four keys of the message only.
\<close>

lemma example_pre_approved:
  "\<exists>md. evaluate_application example_rules example_messages example_application =
     Inr (''pre_approved'', md)"
  by (simp add: engine_defs example_defs)

lemma example_denied_compliance:
  "\<exists>md. evaluate_application example_rules example_messages low_score_application =
     Inr (''denied_compliance'', md)"
  by (simp add: engine_defs example_defs)

theorem ratio_key_iff_not_denied_compliance_witness:
  "(\<exists>md. evaluate_application example_rules example_messages example_application =
      Inr (''pre_approved'', md) \<and> ''loan_to_income_ratio'' \<in> dom md) \<and>
   (\<exists>md. evaluate_application example_rules example_messages low_score_application =
      Inr (''denied_compliance'', md) \<and>
      dom md = {''decision'', ''title'', ''message'', ''next_steps''})"
proof -
  obtain md1 where e1: "evaluate_application example_rules example_messages
      example_application = Inr (''pre_approved'', md1)"
    using example_pre_approved by blast
  obtain md2 where e2: "evaluate_application example_rules example_messages
      low_score_application = Inr (''denied_compliance'', md2)"
    using example_denied_compliance by blast
  from ratio_key_iff_not_denied_compliance [OF e1] ratio_key_iff_not_denied_compliance [OF e2]
    e1 e2 show ?thesis by simp
qed

section \<open>Properties of the submission ledger\<close>

lemma scan_reversed_no_match:
  "\<forall>s \<in> set subs. lower (s_email s) \<noteq> lower email \<Longrightarrow>
   scan_reversed now email subs = (False, 0, None)"
  by (induction subs) simp_all

lemma scan_reversed_first_match:
  "\<forall>r \<in> set before. lower (s_email r) \<noteq> lower email \<Longrightarrow>
   lower (s_email s) = lower email \<Longrightarrow>
   scan_reversed now email (before @ s # after) =
     (if days_since now (s_timestamp s) < 7
      then (True, 7 - days_since now (s_timestamp s), Some s)
      else (False, 0, Some s))"
  by (induction before) (simp_all add: RESUBMISSION_DAYS_def)

lemma days_since_floor:
  "days_since now t = \<lfloor>real_of_int (now - t) / 86400000000\<rfloor>"
  unfolding days_since_def
  using floor_divide_of_int_eq [of "now - t" 86400000000, where ?'a = real] by simp

text \<open>
  C3. \<open>check_existing_submission\<close> answers from the most recent record whose e-mail
  is the query's up to letter case: with no file or no such record it returns
  \<open>(False, 0, None)\<close>; with the record \<open>s\<close> the last of its e-mail, and \<open>d\<close> the
  floor of the elapsed days, it returns \<open>(True, 7 - d, s)\<close> when \<open>d < 7\<close> and
  \<open>(False, 0, s)\<close> otherwise. Six days and 23 hours are six days.
\<close>

theorem check_existing_submission_latest:
  "check_existing_submission now None email = (False, 0, None) \<and>
   ((\<forall>r \<in> set subs. lower (s_email r) \<noteq> lower email) \<longrightarrow>
      check_existing_submission now (Some subs) email = (False, 0, None)) \<and>
   (lower (s_email s) = lower email \<and>
    (\<forall>r \<in> set newer. lower (s_email r) \<noteq> lower email) \<longrightarrow>
      check_existing_submission now (Some (older @ s # newer)) email =
        (if days_since now (s_timestamp s) < 7
         then (True, 7 - days_since now (s_timestamp s), Some s)
         else (False, 0, Some s))) \<and>
   days_since now t = \<lfloor>real_of_int (now - t) / 86400000000\<rfloor> \<and>
   days_since (t + 6 * day + 23 * hour) t = 6"
proof -
  have none: "check_existing_submission now None email = (False, 0, None)"
    by (simp add: check_existing_submission_def)
  have nomatch: "check_existing_submission now (Some subs) email = (False, 0, None)"
    if "\<forall>r \<in> set subs. lower (s_email r) \<noteq> lower email"
    using that scan_reversed_no_match [of "rev subs" email now]
    by (simp add: check_existing_submission_def)
  have found: "check_existing_submission now (Some (older @ s # newer)) email =
        (if days_since now (s_timestamp s) < 7
         then (True, 7 - days_since now (s_timestamp s), Some s)
         else (False, 0, Some s))"
    if "lower (s_email s) = lower email"
      and "\<forall>r \<in> set newer. lower (s_email r) \<noteq> lower email"
    using that scan_reversed_first_match [of "rev newer" email s now "rev older"]
    by (simp add: check_existing_submission_def)
  have six: "days_since (t + 6 * day + 23 * hour) t = 6"
    by (simp add: days_since_def day_def hour_def)
  from none nomatch found six days_since_floor [of now t] show ?thesis by blast
qed

text \<open>
  A ledger of three records, read nine days and 23 hours after the first: the second
  record is the latest of its applicant and six days old, so one day remains; an
  applicant with no record is not blocked.
\<close>

theorem check_existing_submission_latest_witness:
  "check_existing_submission (9 * day + 23 * hour)
     (Some [example_record ''ada@example.org'' 0,
            example_record ''Ada@Example.org'' (3 * day),
            example_record ''bob@example.org'' (5 * day)])
     ''ADA@example.org'' =
   (True, 1, Some (example_record ''Ada@Example.org'' (3 * day))) \<and>
   check_existing_submission (9 * day + 23 * hour)
     (Some [example_record ''ada@example.org'' 0,
            example_record ''Ada@Example.org'' (3 * day),
            example_record ''bob@example.org'' (5 * day)])
     ''eve@example.org'' = (False, 0, None)"
  using check_existing_submission_latest
    [of "9 * day + 23 * hour" "''ADA@example.org''" "[]"
        "example_record ''Ada@Example.org'' (3 * day)"
        "[example_record ''bob@example.org'' (5 * day)]"
        "[example_record ''ada@example.org'' 0]" 0]
    check_existing_submission_latest
    [of "9 * day + 23 * hour" "''eve@example.org''"
        "[example_record ''ada@example.org'' 0,
          example_record ''Ada@Example.org'' (3 * day),
          example_record ''bob@example.org'' (5 * day)]"
        "example_record ''eve@example.org'' 0" "[]" "[]" 0]
  by (simp add: example_record_def lower_def lower_char_def days_since_def day_def hour_def)

lemma find_update_None:
  "find_update now e subs k = None \<longleftrightarrow>
   (\<forall>s \<in> set subs. \<not> (lower (s_email s) = e \<and> 7 \<le> days_since now (s_timestamp s)))"
  by (induction subs arbitrary: k) (auto simp: RESUBMISSION_DAYS_def)

lemma find_update_Some:
  "find_update now e subs k = Some i \<Longrightarrow>
   k \<le> i \<and> i - k < length subs \<and>
   (lower (s_email (subs ! (i - k))) = e \<and> 7 \<le> days_since now (s_timestamp (subs ! (i - k)))) \<and>
   (\<forall>j < i - k. \<not> (lower (s_email (subs ! j)) = e \<and> 7 \<le> days_since now (s_timestamp (subs ! j))))"
proof (induction subs arbitrary: k)
  case Nil
  then show ?case by simp
next
  case (Cons sub subs)
  show ?case
  proof (cases "lower (s_email sub) = e \<and> 7 \<le> days_since now (s_timestamp sub)")
    case True
    with Cons.prems show ?thesis by (simp add: RESUBMISSION_DAYS_def)
  next
    case False
    with Cons.prems have rec: "find_update now e subs (Suc k) = Some i"
      by (auto simp: RESUBMISSION_DAYS_def)
    from Cons.IH [OF rec] have ih: "Suc k \<le> i" "i - Suc k < length subs"
      "lower (s_email (subs ! (i - Suc k))) = e \<and>
         7 \<le> days_since now (s_timestamp (subs ! (i - Suc k)))"
      "\<forall>j < i - Suc k. \<not> (lower (s_email (subs ! j)) = e \<and>
         7 \<le> days_since now (s_timestamp (subs ! j)))"
      by blast+
    from ih(1) have ik: "i - k = Suc (i - Suc k)" by simp
    have "\<forall>j < i - k. \<not> (lower (s_email ((sub # subs) ! j)) = e \<and>
         7 \<le> days_since now (s_timestamp ((sub # subs) ! j)))"
    proof (intro allI impI)
      fix j assume "j < i - k"
      then show "\<not> (lower (s_email ((sub # subs) ! j)) = e \<and>
         7 \<le> days_since now (s_timestamp ((sub # subs) ! j)))"
        using False ih(4) ik by (cases j) auto
    qed
    with ih ik show ?thesis by simp
  qed
qed

lemma save_submission_cases:
  "(\<exists>i < length (records_of file).
      stale now data (records_of file ! i) \<and>
      (\<forall>j < i. \<not> stale now data (records_of file ! j)) \<and>
      save_submission now file data = Some ((records_of file)[i := data])) \<or>
   ((\<forall>s \<in> set (records_of file). \<not> stale now data s) \<and>
    save_submission now file data = Some (records_of file @ [data]))"
proof (cases "find_update now (lower (s_email data)) (records_of file) 0")
  case None
  then have "\<forall>s \<in> set (records_of file). \<not> stale now data s"
    by (simp add: find_update_None stale_def)
  moreover from None have "save_submission now file data = Some (records_of file @ [data])"
    by (simp add: save_submission_def records_of_def Let_def)
  ultimately show ?thesis by blast
next
  case (Some i)
  from find_update_Some [OF Some]
  have "i < length (records_of file)" "stale now data (records_of file ! i)"
    "\<forall>j < i. \<not> stale now data (records_of file ! j)"
    by (simp_all add: stale_def)
  moreover from Some
  have "save_submission now file data = Some ((records_of file)[i := data])"
    by (simp add: save_submission_def records_of_def Let_def)
  ultimately show ?thesis by blast
qed

text \<open>
  C5. \<open>save_submission\<close> does one of two things. Either some record has the
  normalised e-mail of \<open>data\<close> and is at least seven days old: then the first such
  record, at index \<open>i\<close>, is overwritten, the length is kept and every other index
  keeps its record. Or no record is such: then \<open>data\<close> is appended and the old
  records stay as they are.
\<close>

theorem save_submission_frame:
  "(\<exists>i < length (records_of file).
      stale now data (records_of file ! i) \<and>
      (\<forall>j < i. \<not> stale now data (records_of file ! j)) \<and>
      save_submission now file data = Some ((records_of file)[i := data]) \<and>
      length (records_of (save_submission now file data)) = length (records_of file) \<and>
      records_of (save_submission now file data) ! i = data \<and>
      (\<forall>j < length (records_of file). j \<noteq> i \<longrightarrow>
         records_of (save_submission now file data) ! j = records_of file ! j)) \<or>
   ((\<forall>s \<in> set (records_of file). \<not> stale now data s) \<and>
    save_submission now file data = Some (records_of file @ [data]) \<and>
    length (records_of (save_submission now file data)) = Suc (length (records_of file)) \<and>
    (\<forall>j < length (records_of file).
       records_of (save_submission now file data) ! j = records_of file ! j))"
proof -
  from save_submission_cases [of "file" now data]
  consider (update) i where "i < length (records_of file)"
      "stale now data (records_of file ! i)"
      "\<forall>j < i. \<not> stale now data (records_of file ! j)"
      "save_submission now file data = Some ((records_of file)[i := data])"
    | (append) "\<forall>s \<in> set (records_of file). \<not> stale now data s"
      "save_submission now file data = Some (records_of file @ [data])"
    by blast
  then show ?thesis
  proof cases
    case update
    from update(4)
    have "records_of (save_submission now file data) = (records_of file)[i := data]"
      by (simp add: records_of_def)
    with update show ?thesis by auto
  next
    case append
    from append(2)
    have "records_of (save_submission now file data) = records_of file @ [data]"
      by (simp add: records_of_def)
    with append show ?thesis by (simp add: nth_append)
  qed
qed

text \<open>
  Ten days in, a ledger with three records of one applicant: the record of day 5 is too
  recent, the record of day 2 is the first old enough and is overwritten where it
  stands; a missing file becomes a ledger of one record.
\<close>

theorem save_submission_frame_witness:
  "save_submission (10 * day)
     (Some [example_record ''bob@example.org'' 0,
            example_record ''ada@example.org'' (5 * day),
            example_record ''Ada@example.org'' (2 * day),
            example_record ''ADA@example.org'' day])
     (example_record ''ada@EXAMPLE.org'' (10 * day)) =
   Some [example_record ''bob@example.org'' 0,
         example_record ''ada@example.org'' (5 * day),
         example_record ''ada@EXAMPLE.org'' (10 * day),
         example_record ''ADA@example.org'' day] \<and>
   save_submission (10 * day) None (example_record ''ada@example.org'' (10 * day)) =
   Some [example_record ''ada@example.org'' (10 * day)]"
  using save_submission_frame [of "Some [example_record ''bob@example.org'' 0,
            example_record ''ada@example.org'' (5 * day),
            example_record ''Ada@example.org'' (2 * day),
            example_record ''ADA@example.org'' day]" "10 * day"
            "example_record ''ada@EXAMPLE.org'' (10 * day)"]
    save_submission_frame [of None "10 * day" "example_record ''ada@example.org'' (10 * day)"]
  by (simp add: save_submission_def example_record_def lower_def lower_char_def
      days_since_def day_def RESUBMISSION_DAYS_def)

lemma scan_reversed_not_blocked:
  "scan_reversed now email subs = (False, d, r) \<Longrightarrow>
   \<exists>s \<in> set subs. lower (s_email s) = lower email \<Longrightarrow>
   \<exists>s \<in> set subs. lower (s_email s) = lower email \<and> 7 \<le> days_since now (s_timestamp s)"
  by (induction subs) (auto simp: RESUBMISSION_DAYS_def split: if_splits)

lemma days_since_mono: "t1 \<le> t2 \<Longrightarrow> days_since t1 t \<le> days_since t2 t"
  by (simp add: days_since_def zdiv_mono1)

lemma save_submission_one_record:
  assumes inv: "one_record_per_email file"
    and ok: "(\<exists>s \<in> set (records_of file). lower (s_email s) = lower (s_email data)) \<longrightarrow>
             (\<exists>s \<in> set (records_of file). stale now data s)"
  shows "one_record_per_email (save_submission now file data)"
proof -
  from save_submission_cases [of "file" now data]
  consider (update) i where "i < length (records_of file)" "stale now data (records_of file ! i)"
      "save_submission now file data = Some ((records_of file)[i := data])"
    | (append) "\<forall>s \<in> set (records_of file). \<not> stale now data s"
      "save_submission now file data = Some (records_of file @ [data])"
    by blast
  then show ?thesis
  proof cases
    case update
    have "map (\<lambda>s. lower (s_email s)) ((records_of file)[i := data]) =
        (map (\<lambda>s. lower (s_email s)) (records_of file))[i := lower (s_email data)]"
      by (simp add: map_update)
    also have "\<dots> = map (\<lambda>s. lower (s_email s)) (records_of file)"
      using update(1,2) by (simp add: stale_def list_update_same_conv)
    finally show ?thesis
      using inv update(3) by (simp add: one_record_per_email_def records_of_def)
  next
    case append
    with ok have "\<forall>s \<in> set (records_of file). lower (s_email s) \<noteq> lower (s_email data)"
      by blast
    then show ?thesis
      using inv append(2) by (auto simp: one_record_per_email_def records_of_def)
  qed
qed

lemma submit_application_one_record:
  assumes "checked_at req \<le> saved_at req" and "one_record_per_email file"
  shows "one_record_per_email (submit_application req file)"
proof (cases "check_existing_submission (checked_at req) file (s_email (submission_record req))")
  case (fields blocked d r)
  show ?thesis
  proof (cases blocked)
    case True
    with fields assms(2) show ?thesis by (simp add: submit_application_def)
  next
    case False
    have "\<exists>s \<in> set (records_of file). stale (saved_at req) (submission_record req) s"
      if m: "\<exists>s \<in> set (records_of file).
               lower (s_email s) = lower (s_email (submission_record req))"
    proof -
      from m obtain subs where some: "file = Some subs"
        by (cases "file") (auto simp: records_of_def)
      with some fields False have "scan_reversed (checked_at req)
          (s_email (submission_record req)) (rev subs) = (False, d, r)"
        by (simp add: check_existing_submission_def)
      from scan_reversed_not_blocked [OF this] m some
      obtain s where "s \<in> set subs"
        "lower (s_email s) = lower (s_email (submission_record req))"
        "7 \<le> days_since (checked_at req) (s_timestamp s)"
        by (auto simp: records_of_def)
      with days_since_mono [OF assms(1), of "s_timestamp s"] some show ?thesis
        by (auto simp: stale_def records_of_def)
    qed
    then have "one_record_per_email
        (save_submission (saved_at req) file (submission_record req))"
      using assms(2) by (intro save_submission_one_record) blast+
    with fields False show ?thesis by (simp add: submit_application_def)
  qed
qed

lemma submit_all_one_record:
  "\<forall>req \<in> set reqs. checked_at req \<le> saved_at req \<Longrightarrow> one_record_per_email file \<Longrightarrow>
   one_record_per_email (submit_all reqs file)"
  by (induction reqs arbitrary: "file") (simp_all add: submit_application_one_record)

lemma distinct_filter_le_1:
  "distinct (map f xs) \<Longrightarrow> length (filter (\<lambda>x. f x = v \<and> Q x) xs) \<le> 1"
proof (induction xs)
  case Nil
  then show ?case by simp
next
  case (Cons x xs)
  show ?case
  proof (cases "f x = v")
    case True
    have "f y \<noteq> v" if "y \<in> set xs" for y
      using Cons.prems True that by (auto simp: image_iff)
    then have "\<forall>y \<in> set xs. f y \<noteq> v" by blast
    then have "filter (\<lambda>x. f x = v \<and> Q x) xs = []" by (simp add: filter_empty_conv)
    then show ?thesis by simp
  next
    case False
    with Cons show ?thesis by simp
  qed
qed

text \<open>
  C4. From an empty ledger, after any sequence of gated submissions whose clock does not
  run backwards between the check and the save, the ledger holds at most one record of
  a normalised e-mail inside the cooldown window at any instant, and at most one record
  of that e-mail at all; a submission the check reports as blocked leaves the ledger as
  it is.
\<close>

theorem one_active_record_per_email:
  assumes "records_of start = []"
    and "\<forall>req \<in> set reqs. checked_at req \<le> saved_at req"
  shows "length (active_records now email (records_of (submit_all reqs start))) \<le> 1 \<and>
    length (filter (\<lambda>s. lower (s_email s) = lower email)
      (records_of (submit_all reqs start))) \<le> 1 \<and>
    (fst (check_existing_submission (checked_at req) file (s_email (submission_record req)))
       \<longrightarrow> submit_application req file = file)"
proof -
  from assms(1) have "one_record_per_email start"
    by (simp add: one_record_per_email_def)
  from submit_all_one_record [OF assms(2) this]
  have d: "distinct (map (\<lambda>s. lower (s_email s)) (records_of (submit_all reqs start)))"
    by (simp add: one_record_per_email_def)
  have a: "length (active_records now email (records_of (submit_all reqs start))) \<le> 1"
    unfolding active_records_def by (rule distinct_filter_le_1 [OF d])
  have b: "length (filter (\<lambda>s. lower (s_email s) = lower email)
      (records_of (submit_all reqs start))) \<le> 1"
    using distinct_filter_le_1 [OF d, of "lower email" "\<lambda>s. True"] by simp
  have c: "fst (check_existing_submission (checked_at req) file
      (s_email (submission_record req))) \<longrightarrow> submit_application req file = file"
    by (auto simp: submit_application_def split: prod.splits)
  from a b c show ?thesis by blast
qed

text \<open>
  The four example requests: the second is blocked, the third overwrites the first
  record, the fourth is appended.
\<close>

lemma example_requests_ledger:
  "submit_all example_requests None =
     Some [example_record ''ADA@example.org'' (8 * day),
           example_record ''bob@example.org'' (9 * day)]"
  by (simp add: example_requests_def submit_application_def check_existing_submission_def
      save_submission_def example_record_def lower_def lower_char_def days_since_def day_def
      RESUBMISSION_DAYS_def)

theorem one_active_record_per_email_witness:
  "records_of (submit_all example_requests None) =
     [example_record ''ADA@example.org'' (8 * day),
      example_record ''bob@example.org'' (9 * day)] \<and>
   length (active_records (10 * day) ''ada@example.org''
     (records_of (submit_all example_requests None))) \<le> 1"
  using one_active_record_per_email [of None example_requests "10 * day" "''ada@example.org''"]
    example_requests_ledger
  by (simp add: records_of_def example_requests_def)

text \<open>
  C9. The preference \<open>'YES'\<close> for an applicant with a record in the ledger: the
  route stores \<open>contact_requested = False\<close>, and the confirmation it shows is the
  \<open>yes\<close> template.
\<close>

theorem contact_preference_uppercase_mismatch:
  "contact_preference_route example_messages (9 * day) ''YES'' ''ada@example.org''
     (Some [example_record ''ada@example.org'' 0]) =
   (Some [(example_record ''ada@example.org'' 0)
            \<lparr>s_contact_requested := Some False, s_contact_timestamp := Some (9 * day)\<rparr>],
    get_contact_message example_messages ''yes'' ''ada@example.org'') \<and>
   get_contact_message example_messages ''yes'' ''ada@example.org'' =
     Inr [''title'' \<mapsto> PStr ''Thank you'',
          ''message'' \<mapsto> PStr ''An agent will write to ada@example.org.'']"
  by (simp add: contact_preference_route_def get_contact_message_def example_messages_def
      example_record_def lower_def lower_char_def py_replace.simps)

lemma update_reversed_flag:
  "lower (s_email s) = lower email \<Longrightarrow>
   \<forall>r \<in> set newer. lower (s_email r) \<noteq> lower email \<Longrightarrow>
   rev (update_reversed now preference email (rev (older @ s # newer))) =
     older @ s\<lparr>s_contact_requested := Some (preference = ''yes''),
               s_contact_timestamp := Some now\<rparr> # newer"
proof -
  have "update_reversed now preference email (before @ s # after) =
      before @ s\<lparr>s_contact_requested := Some (preference = ''yes''),
                  s_contact_timestamp := Some now\<rparr> # after"
    if "\<forall>r \<in> set before. lower (s_email r) \<noteq> lower email"
      and "lower (s_email s) = lower email" for before after
    using that by (induction before) simp_all
  from this [of "rev newer" "rev older"] show
    "lower (s_email s) = lower email \<Longrightarrow>
     \<forall>r \<in> set newer. lower (s_email r) \<noteq> lower email \<Longrightarrow> ?thesis"
    by simp
qed

text \<open>
  In general the route stores \<open>preference == 'yes'\<close> on the most recent record of
  the e-mail and confirms with the template of \<open>preference.lower() == 'yes'\<close>.
\<close>

lemma contact_flow_agreement:
  assumes "contact_preference ms ''yes'' = Some yes" and "contact_preference ms ''no'' = Some no"
    and "lower (s_email s) = lower email"
    and "\<forall>r \<in> set newer. lower (s_email r) \<noteq> lower email"
  shows "contact_preference_route ms now preference email (Some (older @ s # newer)) =
     (Some (older @ s\<lparr>s_contact_requested := Some (preference = ''yes''),
                       s_contact_timestamp := Some now\<rparr> # newer),
      get_contact_message ms (if lower preference = ''yes'' then ''yes'' else ''no'') email)"
  using assms update_reversed_flag [OF assms(3,4)]
  by (simp add: contact_preference_route_def get_contact_message_def lower_def lower_char_def)

section \<open>Properties of the message formatting\<close>



































end
